theory Spec2Isabelle
  imports Main "HOL-Library.Word" "HOL-Library.Finite_Map"
begin

section \<open>Claim values and errors\<close>

text \<open>
  A claim value is a Go \<open>interface{}\<close> holding what \<open>encoding/json\<close> decodes into it:
  \<open>nil\<close>, \<open>bool\<close>, \<open>float64\<close>, \<open>string\<close>, \<open>[]interface{}\<close> or
  \<open>map[string]interface{}\<close>. A \<open>float64\<close> is kept as its 64 bits; a Go map has
  neither order nor duplicate keys, so a nested object is a finite map.
\<close>

type_synonym float64 = "64 word"

datatype jvalue =
    JNil
  | JBool bool
  | JNumber float64
  | JString string
  | JArray "jvalue list"
  | JObject "(string, jvalue) fmap"

text \<open>
  A Go \<open>error\<close> is kept as it is built: \<open>errors.New\<close> with its message, or
  \<open>fmt.Errorf\<close> with its format string and its arguments, unrendered. An error that
  comes out of a library call (the network, the file system, \<open>encoding/json\<close>) is an
  \<open>errors_New\<close> with the library's message.
\<close>

datatype fmt_arg =
    ArgError error
  | ArgString string
  | ArgValue jvalue
  | ArgType string
and error =
    errors_New string
  | fmt_Errorf string "fmt_arg list"

section \<open>Functions of the libraries the code calls\<close>

text \<open>
  The functions of \<open>strconv\<close>, \<open>encoding/json\<close> and \<open>spf13/cast\<close> whose results the
  code only passes on are parameters: the decimal form of a \<open>float64\<close>
  (\<open>strconv.FormatFloat(f, 'f', -1, 64)\<close>), the truth value \<open>cast.ToBool\<close> gives a
  number, and \<open>json.Marshal\<close>.
\<close>

record extern =
  FormatFloat :: "float64 \<Rightarrow> string"
  ToBool_number :: "float64 \<Rightarrow> bool"
  json_Marshal :: "jvalue \<Rightarrow> error + string"

text \<open>
  \<open>cast.ToStringE\<close> on the dynamic types a decoded claim can have: a string is itself,
  a bool is \<open>strconv.FormatBool\<close>, a \<open>float64\<close> its decimal form, \<open>nil\<close> the empty
  string; a slice or a map is the library's "unable to cast" error.
\<close>

fun cast_ToStringE :: "extern \<Rightarrow> jvalue \<Rightarrow> error + string" where
  "cast_ToStringE X (JString s) = Inr s"
| "cast_ToStringE X (JBool b) = Inr (if b then ''true'' else ''false'')"
| "cast_ToStringE X (JNumber f) = Inr (FormatFloat X f)"
| "cast_ToStringE X JNil = Inr ''''"
| "cast_ToStringE X v =
     Inl (fmt_Errorf ''unable to cast %#v of type %T to string'' [ArgValue v, ArgValue v])"

text \<open>
  \<open>cast.ToSlice\<close> drops the error of \<open>cast.ToSliceE\<close>: a \<open>[]interface{}\<close> is copied,
  anything else (here only \<open>nil\<close> reaches it) is the nil slice.
\<close>

fun cast_ToSlice :: "jvalue \<Rightarrow> jvalue list" where
  "cast_ToSlice (JArray xs) = xs"
| "cast_ToSlice v = []"

text \<open>
  \<open>strconv.ParseBool\<close>, with \<open>None\<close> for its syntax error, and \<open>cast.ToBool\<close>, which
  drops the error of \<open>cast.ToBoolE\<close> and so answers \<open>false\<close> wherever that fails.
\<close>

definition ParseBool :: "string \<Rightarrow> bool option" where
  "ParseBool s =
     (if s \<in> set [''1'', ''t'', ''T'', ''TRUE'', ''true'', ''True''] then Some True
      else if s \<in> set [''0'', ''f'', ''F'', ''FALSE'', ''false'', ''False''] then Some False
      else None)"

fun cast_ToBool :: "extern \<Rightarrow> jvalue \<Rightarrow> bool" where
  "cast_ToBool X (JBool b) = b"
| "cast_ToBool X JNil = False"
| "cast_ToBool X (JNumber f) = ToBool_number X f"
| "cast_ToBool X (JString s) = (case ParseBool s of Some b \<Rightarrow> b | None \<Rightarrow> False)"
| "cast_ToBool X v = False"

section \<open>The coercion layer\<close>

text \<open>\<open>toString\<close>: \<open>cast.ToStringE\<close> first, \<open>json.Marshal\<close> when that fails.\<close>

definition toString :: "extern \<Rightarrow> jvalue \<Rightarrow> error + string" where
  "toString X v =
     (case cast_ToStringE X v of
        Inr str \<Rightarrow> Inr str
      | Inl _ \<Rightarrow>
          (case json_Marshal X v of
             Inl err \<Rightarrow> Inl err
           | Inr jsonStr \<Rightarrow> Inr jsonStr))"

text \<open>The loop of \<open>toStringSlice\<close>, appending to \<open>out\<close>; the first failure ends it.\<close>

fun toStringSlice_loop :: "extern \<Rightarrow> jvalue list \<Rightarrow> string list \<Rightarrow> error + string list" where
  "toStringSlice_loop X [] out = Inr out"
| "toStringSlice_loop X (v # vs) out =
     (case toString X v of
        Inl err \<Rightarrow>
          Inl (fmt_Errorf ''could not convert slice entry to string %v: %v''
                 [ArgValue v, ArgError err])
      | Inr str \<Rightarrow> toStringSlice_loop X vs (out @ [str]))"

text \<open>
  The type switch of \<open>toStringSlice\<close>: a \<open>[]interface{}\<close> is taken as it is; the case
  \<open>interface{}\<close> matches every value with a dynamic type, that is every value but
  \<open>nil\<close>; \<open>nil\<close> falls to \<open>default\<close>.
\<close>

definition sliceValues :: "jvalue \<Rightarrow> jvalue list" where
  "sliceValues v =
     (case v of
        JArray xs \<Rightarrow> xs
      | JNil \<Rightarrow> cast_ToSlice v
      | _ \<Rightarrow> [v])"

definition toStringSlice :: "extern \<Rightarrow> jvalue \<Rightarrow> error + string list" where
  "toStringSlice X v = toStringSlice_loop X (sliceValues v) []"

text \<open>
  A destination is an \<open>interface{}\<close> holding a pointer; \<open>coerceClaim\<close> switches on its
  type. Memory is a store from addresses to cells, so that what a call writes, and
  where, is part of its result. \<open>OtherDst\<close> carries the name of any other type.
\<close>

datatype cell = StringCell string | SliceCell "string list" | BoolCell bool

datatype 'a dst = PtrString 'a | PtrStringSlice 'a | PtrBool 'a | OtherDst string

type_synonym 'a store = "'a \<Rightarrow> cell"

fun coerceClaim :: "extern \<Rightarrow> jvalue \<Rightarrow> 'a dst \<Rightarrow> 'a store \<Rightarrow> error option \<times> 'a store" where
  "coerceClaim X v (PtrString d) st =
     (case toString X v of
        Inl err \<Rightarrow>
          (Some (fmt_Errorf ''could not convert value to string: %v'' [ArgError err]), st)
      | Inr str \<Rightarrow> (None, st(d := StringCell str)))"
| "coerceClaim X v (PtrStringSlice d) st =
     (case toStringSlice X v of
        Inl err \<Rightarrow>
          (Some (fmt_Errorf ''could not convert value to string slice: %v'' [ArgError err]), st)
      | Inr strSlice \<Rightarrow> (None, st(d := SliceCell strSlice)))"
| "coerceClaim X v (PtrBool d) st = (None, st(d := BoolCell (cast_ToBool X v)))"
| "coerceClaim X v (OtherDst t) st =
     (Some (fmt_Errorf ''unknown type for destination: %T'' [ArgType t]), st)"

section \<open>The claim extractor\<close>

type_synonym claims = "string \<rightharpoonup> jvalue"

type_synonym url = string

type_synonym header = "string \<rightharpoonup> string list"

datatype Context = context_Background | context_TODO

text \<open>
  The struct \<open>claimExtractor\<close>. A \<open>*url.URL\<close> and a \<open>map[string][]string\<close> can be
  \<open>nil\<close>, which is \<open>None\<close>. \<open>tokenClaims\<close> is only ever read, and reading a nil map
  is reading an empty one. \<open>profileClaims\<close> is compared with \<open>nil\<close>, so it is an
  option: \<open>None\<close> is the nil map.
\<close>

record claimExtractor =
  profileURL :: "url option"
  ctx :: Context
  requestHeaders :: "header option"
  tokenClaims :: claims
  profileClaims :: "claims option"

text \<open>
  The network. \<open>requests.New(url).WithContext(ctx).WithHeaders(h).Do().UnmarshalInto(&claims)\<close>
  sends one request and decodes the body into \<open>claims\<close>, a nil map before the call.
  The answer to the \<open>n\<close>-th request sent is an error, or the map the decoding left
  (still nil, \<open>None\<close>, when the body is the JSON text \<open>null\<close>). The requests sent so
  far are kept in a list, the latest last.
\<close>

record request =
  req_url :: url
  req_ctx :: Context
  req_headers :: header

type_synonym network = "nat \<Rightarrow> request \<Rightarrow> error + claims option"

text \<open>\<open>idToken.Claims(&m)\<close> decodes the token's payload into \<open>m\<close>, or fails.\<close>

datatype IDToken = IDToken (Claims: "error + claims")

definition NewClaimExtractor ::
  "Context \<Rightarrow> IDToken \<Rightarrow> url option \<Rightarrow> header option \<Rightarrow> error + claimExtractor" where
  "NewClaimExtractor cx idToken pURL profileRequestHeaders =
     (case Claims idToken of
        Inl err \<Rightarrow> Inl (fmt_Errorf ''failed to extract claims from ID Token: %v'' [ArgError err])
      | Inr tc \<Rightarrow>
          Inr \<lparr>profileURL = pURL, ctx = cx, requestHeaders = profileRequestHeaders,
               tokenClaims = tc, profileClaims = None\<rparr>)"

text \<open>
  \<open>getProfileClaims\<close> returns the pair (claims, error) and the list of requests sent.
\<close>

definition getProfileClaims ::
  "network \<Rightarrow> claimExtractor \<Rightarrow> request list \<Rightarrow> (claims option \<times> error option) \<times> request list" where
  "getProfileClaims net c w =
     (case (profileURL c, requestHeaders c) of
        (Some u, Some h) \<Rightarrow>
          (let r = \<lparr>req_url = u, req_ctx = ctx c, req_headers = h\<rparr> in
           case net (length w) r of
             Inl err \<Rightarrow>
               ((None, Some (fmt_Errorf ''error making request to profile URL: %v'' [ArgError err])),
                w @ [r])
           | Inr cl \<Rightarrow> ((cl, None), w @ [r]))
      | _ \<Rightarrow> ((Some Map.empty, None), w))"

text \<open>
  The last lookup of \<open>GetClaim\<close>, in \<open>c.profileClaims\<close>: a nil map has no key.
\<close>

definition lookupProfile ::
  "string \<Rightarrow> claimExtractor \<Rightarrow> jvalue \<times> bool \<times> error option" where
  "lookupProfile claim c =
     (case profileClaims c of
        None \<Rightarrow> (JNil, False, None)
      | Some m \<Rightarrow>
          (case m claim of
             Some v \<Rightarrow> (v, True, None)
           | None \<Rightarrow> (JNil, False, None)))"

text \<open>
  \<open>GetClaim\<close> returns its triple (value, exists, error), the extractor as the call left
  it, and the requests sent.
\<close>

definition GetClaim ::
  "network \<Rightarrow> string \<Rightarrow> claimExtractor \<Rightarrow> request list \<Rightarrow>
     (jvalue \<times> bool \<times> error option) \<times> claimExtractor \<times> request list" where
  "GetClaim net claim c w =
     (if claim = '''' then ((JNil, False, None), c, w)
      else
        (case tokenClaims c claim of
           Some v \<Rightarrow> ((v, True, None), c, w)
         | None \<Rightarrow>
             (case profileClaims c of
                None \<Rightarrow>
                  (case getProfileClaims net c w of
                     ((pc, Some err), w') \<Rightarrow>
                       ((JNil, False,
                         Some (fmt_Errorf ''failed to fetch claims from profile URL: %v''
                                 [ArgError err])),
                        c, w')
                   | ((pc, None), w') \<Rightarrow>
                       (lookupProfile claim (c\<lparr>profileClaims := pc\<rparr>),
                        c\<lparr>profileClaims := pc\<rparr>, w'))
              | Some m \<Rightarrow> (lookupProfile claim c, c, w))))"

text \<open>
  \<open>GetClaimInto\<close> returns its pair (exists, error), the extractor, the store and the
  requests sent.
\<close>

definition GetClaimInto ::
  "network \<Rightarrow> extern \<Rightarrow> string \<Rightarrow> 'a dst \<Rightarrow> claimExtractor \<Rightarrow> 'a store \<Rightarrow> request list \<Rightarrow>
     (bool \<times> error option) \<times> claimExtractor \<times> 'a store \<times> request list" where
  "GetClaimInto net X claim d c st w =
     (case GetClaim net claim c w of
        ((v, ex, Some err), c', w') \<Rightarrow>
          ((False, Some (fmt_Errorf ''could not get claim %q: %v'' [ArgString claim, ArgError err])),
           c', st, w')
      | ((v, ex, None), c', w') \<Rightarrow>
          (if \<not> ex then ((False, None), c', st, w')
           else
             (case coerceClaim X v d st of
                (Some err, st') \<Rightarrow>
                  ((False, Some (fmt_Errorf ''could no coerce claim: %v'' [ArgError err])),
                   c', st', w')
              | (None, st') \<Rightarrow> ((True, None), c', st', w'))))"

text \<open>
  A client of one extractor: any sequence of calls of the two methods of the interface,
  each on the extractor, the store and the network as the call before left them.
\<close>

datatype 'a call = Call_GetClaim string | Call_GetClaimInto string "'a dst"

fun calls ::
  "network \<Rightarrow> extern \<Rightarrow> 'a call list \<Rightarrow> claimExtractor \<Rightarrow> 'a store \<Rightarrow> request list \<Rightarrow>
     claimExtractor \<times> 'a store \<times> request list" where
  "calls net X [] c st w = (c, st, w)"
| "calls net X (Call_GetClaim claim # cs) c st w =
     (case GetClaim net claim c w of (r, c', w') \<Rightarrow> calls net X cs c' st w')"
| "calls net X (Call_GetClaimInto claim d # cs) c st w =
     (case GetClaimInto net X claim d c st w of (r, c', st', w') \<Rightarrow> calls net X cs c' st' w')"

text \<open>The address a destination points to, if it is one of the three pointer types.\<close>

fun target :: "'a dst \<Rightarrow> 'a option" where
  "target (PtrString a) = Some a"
| "target (PtrStringSlice a) = Some a"
| "target (PtrBool a) = Some a"
| "target (OtherDst t) = None"

section \<open>Provider data and session assembly\<close>

definition OIDCEmailClaim :: string where
  "OIDCEmailClaim = ''email''"

definition OIDCGroupsClaim :: string where
  "OIDCGroupsClaim = ''groups''"

text \<open>
  The fields of \<open>ProviderData\<close> that the functions below read. A function value can be
  \<open>nil\<close>, and so can the \<open>http.Header\<close> it returns.
\<close>

record ProviderData =
  ProfileURL :: "url option"
  ClientSecret :: string
  ClientSecretFile :: string
  AllowUnverifiedEmail :: bool
  EmailClaim :: string
  GroupsClaim :: string
  getAuthorizationHeaderFunc :: "(string \<Rightarrow> header option) option"

text \<open>
  \<open>GetClientSecret\<close>. \<open>ioutil.ReadFile\<close> is the file system, a function from a path to
  the file's contents or an error. The line written by \<open>logger.Errorf\<close> is kept, with
  its arguments, as the third result.
\<close>

type_synonym filesystem = "string \<Rightarrow> error + string"

definition GetClientSecret ::
  "filesystem \<Rightarrow> ProviderData \<Rightarrow> string \<times> error option \<times> (string \<times> fmt_arg list) list" where
  "GetClientSecret fs p =
     (if ClientSecret p \<noteq> '''' \<or> ClientSecretFile p = '''' then (ClientSecret p, None, [])
      else
        (case fs (ClientSecretFile p) of
           Inl err \<Rightarrow>
             ('''', Some (errors_New ''could not read client secret file''),
              [(''error reading client secret file %s: %s'',
                [ArgString (ClientSecretFile p), ArgError err])])
         | Inr fileClientSecret \<Rightarrow> (fileClientSecret, None, [])))"

definition getAuthorizationHeader :: "ProviderData \<Rightarrow> string \<Rightarrow> header option" where
  "getAuthorizationHeader p accessToken =
     (case getAuthorizationHeaderFunc p of
        Some f \<Rightarrow> (if accessToken \<noteq> '''' then f accessToken else None)
      | None \<Rightarrow> None)"

text \<open>
  \<open>getClaimExtractor\<close>, on a token that is not nil (both callers hold one).
\<close>

definition getClaimExtractor :: "ProviderData \<Rightarrow> IDToken \<Rightarrow> string \<Rightarrow> error + claimExtractor" where
  "getClaimExtractor p idToken accessToken =
     (case NewClaimExtractor context_TODO idToken (ProfileURL p)
             (getAuthorizationHeader p accessToken) of
        Inl err \<Rightarrow> Inl (fmt_Errorf ''could not initialise claim extractor: %v'' [ArgError err])
      | Inr extractor \<Rightarrow> Inr extractor)"

text \<open>
  The fields of \<open>sessions.SessionState\<close> this code writes, and the stored nonce.
\<close>

record SessionState =
  User :: string
  Email :: string
  Groups :: "string list"
  PreferredUsername :: string
  Nonce :: string

text \<open>
  The variables \<open>buildSessionFromClaims\<close> takes the address of: four fields of the
  fresh session \<open>ss\<close> and the local \<open>verified\<close>. All start at their zero values.
\<close>

datatype ssaddr = ss_User | ss_Email | ss_Groups | ss_PreferredUsername | var_verified

fun ss_zero :: "ssaddr store" where
  "ss_zero ss_Groups = SliceCell []"
| "ss_zero var_verified = BoolCell False"
| "ss_zero a = StringCell ''''"

definition getString :: "'a store \<Rightarrow> 'a \<Rightarrow> string" where
  "getString st a = (case st a of StringCell s \<Rightarrow> s | _ \<Rightarrow> '''')"

definition getSlice :: "'a store \<Rightarrow> 'a \<Rightarrow> string list" where
  "getSlice st a = (case st a of SliceCell xs \<Rightarrow> xs | _ \<Rightarrow> [])"

definition getBool :: "'a store \<Rightarrow> 'a \<Rightarrow> bool" where
  "getBool st a = (case st a of BoolCell b \<Rightarrow> b | _ \<Rightarrow> False)"

definition session_of :: "ssaddr store \<Rightarrow> SessionState" where
  "session_of st =
     \<lparr>User = getString st ss_User, Email = getString st ss_Email,
      Groups = getSlice st ss_Groups, PreferredUsername = getString st ss_PreferredUsername,
      Nonce = ''''\<rparr>"

text \<open>
  The map literal the loop ranges over. Its keys are set in the order written, so of
  two equal keys the later entry stays.
\<close>

definition claimDsts :: "ProviderData \<Rightarrow> (string \<rightharpoonup> ssaddr dst)" where
  "claimDsts p =
     [''sub'' \<mapsto> PtrString ss_User,
      EmailClaim p \<mapsto> PtrString ss_Email,
      GroupsClaim p \<mapsto> PtrStringSlice ss_Groups,
      ''preferred_username'' \<mapsto> PtrString ss_PreferredUsername]"

text \<open>
  The loop over the map. Go does not fix the order in which \<open>range\<close> visits the keys
  of a map: the order the run takes, \<open>ks\<close>, is an input. The first error ends the loop.
\<close>

fun claimLoop ::
  "network \<Rightarrow> extern \<Rightarrow> (string \<rightharpoonup> ssaddr dst) \<Rightarrow> string list \<Rightarrow>
     claimExtractor \<Rightarrow> ssaddr store \<Rightarrow> request list \<Rightarrow>
     (error + claimExtractor \<times> ssaddr store) \<times> request list" where
  "claimLoop net X m [] c st w = (Inr (c, st), w)"
| "claimLoop net X m (claim # ks) c st w =
     (case m claim of
        None \<Rightarrow> claimLoop net X m ks c st w
      | Some d \<Rightarrow>
          (case GetClaimInto net X claim d c st w of
             ((ex, Some err), c', st', w') \<Rightarrow> (Inl err, w')
           | ((ex, None), c', st', w') \<Rightarrow> claimLoop net X m ks c' st' w'))"

text \<open>
  The orders a run can take: each key of the map once.
\<close>

definition range_order :: "('k \<rightharpoonup> 'v) \<Rightarrow> 'k list \<Rightarrow> bool" where
  "range_order m ks = (distinct ks \<and> set ks = dom m)"

text \<open>
  \<open>buildSessionFromClaims\<close> returns the session or the error, and the requests sent.
\<close>

definition buildSessionFromClaims ::
  "network \<Rightarrow> extern \<Rightarrow> string list \<Rightarrow> ProviderData \<Rightarrow> IDToken option \<Rightarrow> string \<Rightarrow>
     request list \<Rightarrow> (error + SessionState) \<times> request list" where
  "buildSessionFromClaims net X ks p idToken accessToken w =
     (case idToken of
        None \<Rightarrow> (Inr (session_of ss_zero), w)
      | Some tok \<Rightarrow>
          (case getClaimExtractor p tok accessToken of
             Inl err \<Rightarrow> (Inl err, w)
           | Inr extractor \<Rightarrow>
               (case claimLoop net X (claimDsts p) ks extractor ss_zero w of
                  (Inl err, w1) \<Rightarrow> (Inl err, w1)
                | (Inr (c1, st1), w1) \<Rightarrow>
                    (let verifyEmail = (EmailClaim p = OIDCEmailClaim \<and> \<not> AllowUnverifiedEmail p) in
                     case GetClaimInto net X ''email_verified'' (PtrBool var_verified) c1 st1 w1 of
                       ((ex, Some err), c2, st2, w2) \<Rightarrow> (Inl err, w2)
                     | ((ex, None), c2, st2, w2) \<Rightarrow>
                         (if verifyEmail \<and> ex \<and> \<not> getBool st2 var_verified
                          then
                            (Inl (fmt_Errorf ''email in id_token (%s) isn't verified''
                                    [ArgString (getString st2 ss_Email)]),
                             w2)
                          else (Inr (session_of st2), w2))))))"

text \<open>
  Modelled from the spec: \<open>sessions.SessionState.CheckNonce\<close> is not among the sources.
  The spec: "extract the token's \<open>nonce\<close> claim and compare exactly against the
  session's stored value".
\<close>

definition CheckNonce :: "SessionState \<Rightarrow> string \<Rightarrow> bool" where
  "CheckNonce s nonce = (Nonce s = nonce)"

text \<open>
  \<open>checkNonce\<close> returns the error, or \<open>None\<close> for nil, and the requests sent. Its only
  variable is the local \<open>nonce\<close>, the empty string before the lookup.
\<close>

definition checkNonce ::
  "network \<Rightarrow> extern \<Rightarrow> ProviderData \<Rightarrow> SessionState \<Rightarrow> IDToken \<Rightarrow> request list \<Rightarrow>
     error option \<times> request list" where
  "checkNonce net X p s idToken w =
     (case getClaimExtractor p idToken '''' of
        Inl err \<Rightarrow> (Some (fmt_Errorf ''id_token claims extraction failed: %v'' [ArgError err]), w)
      | Inr extractor \<Rightarrow>
          (case GetClaimInto net X ''nonce'' (PtrString ()) extractor (\<lambda>u. StringCell '''') w of
             ((ex, Some err), c', st', w') \<Rightarrow>
               (Some (fmt_Errorf ''could not extract nonce from ID Token: %v'' [ArgError err]), w')
           | ((ex, None), c', st', w') \<Rightarrow>
               (if \<not> CheckNonce s (getString st' ())
                then (Some (errors_New ''id_token nonce claim does not match the session nonce''), w')
                else (None, w'))))"

section \<open>Example inputs\<close>

text \<open>
  Concrete inputs on which the definitions above are evaluated: a stand-in for the
  library functions, used only at the float zero (printed as \<open>0\<close>) and at the empty
  object (encoded as \<open>{}\<close>; it refuses every other value), three networks (one that
  refuses every request, one that delivers a profile document, one that fails the
  first request and delivers afterwards), an extractor with an endpoint and headers,
  a provider without a profile endpoint, and the token of the spec's examples with and
  without \<open>email_verified\<close>.
\<close>

definition sample_extern :: extern where
  "sample_extern =
     \<lparr>FormatFloat = (\<lambda>f. if f = 0 then ''0'' else ''1''),
      ToBool_number = (\<lambda>f. False),
      json_Marshal =
        (\<lambda>v. case v of
               JObject m \<Rightarrow>
                 (if m = fmempty then Inr ''{}''
                  else Inl (errors_New ''json: unsupported value''))
             | _ \<Rightarrow> Inl (errors_New ''json: unsupported value''))\<rparr>"

definition net_down :: network where
  "net_down = (\<lambda>n r. Inl (errors_New ''connection refused''))"

definition net_profile :: network where
  "net_profile = (\<lambda>n r. Inr (Some [''email_verified'' \<mapsto> JBool True]))"

definition net_flaky :: network where
  "net_flaky =
     (\<lambda>n r. if n = 0 then Inl (errors_New ''timeout'')
             else Inr (Some [''email_verified'' \<mapsto> JBool True]))"

definition sample_request :: request where
  "sample_request =
     \<lparr>req_url = ''https://idp.example.com/userinfo'', req_ctx = context_TODO,
      req_headers = [''Authorization'' \<mapsto> [''Bearer t'']]\<rparr>"

definition sample_extractor :: claimExtractor where
  "sample_extractor =
     \<lparr>profileURL = Some ''https://idp.example.com/userinfo'', ctx = context_TODO,
      requestHeaders = Some [''Authorization'' \<mapsto> [''Bearer t'']],
      tokenClaims = [''sub'' \<mapsto> JString ''u1''], profileClaims = None\<rparr>"

definition empty_store :: "nat store" where
  "empty_store = (\<lambda>a. StringCell '''')"

definition sample_provider :: ProviderData where
  "sample_provider =
     \<lparr>ProfileURL = None, ClientSecret = '''', ClientSecretFile = ''/etc/oauth2/secret'',
      AllowUnverifiedEmail = False, EmailClaim = ''email'', GroupsClaim = ''groups'',
      getAuthorizationHeaderFunc = None\<rparr>"

definition sample_token :: IDToken where
  "sample_token =
     IDToken (Inr [''sub'' \<mapsto> JString ''u1'', ''email'' \<mapsto> JString ''a@example.com'',
                   ''email_verified'' \<mapsto> JBool False,
                   ''groups'' \<mapsto> JArray [JString ''g1'', JString ''g2''],
                   ''nonce'' \<mapsto> JString ''abc123''])"

definition sample_token_unmarked :: IDToken where
  "sample_token_unmarked =
     IDToken (Inr [''sub'' \<mapsto> JString ''u1'', ''email'' \<mapsto> JString ''a@example.com'',
                   ''groups'' \<mapsto> JArray [JString ''g1'', JString ''g2'']])"

definition sample_order :: "string list" where
  "sample_order = [''sub'', ''email'', ''groups'', ''preferred_username'']"

text \<open>The extractor \<open>NewClaimExtractor\<close> builds from a token, no endpoint and no headers.\<close>

definition token_extractor :: "IDToken \<Rightarrow> claimExtractor" where
  "token_extractor tok =
     \<lparr>profileURL = None, ctx = context_TODO, requestHeaders = None,
      tokenClaims = (case Claims tok of Inr tc \<Rightarrow> tc | Inl e \<Rightarrow> Map.empty),
      profileClaims = None\<rparr>"

text \<open>The values with a textual form of their own: a bool, a number, a string.\<close>

fun scalar :: "jvalue \<Rightarrow> bool" where
  "scalar (JBool b) = True"
| "scalar (JNumber f) = True"
| "scalar (JString s) = True"
| "scalar v = False"

section \<open>Properties of the coercion layer\<close>







lemma toStringSlice_nonlist:
  "v \<noteq> JNil \<Longrightarrow> (\<forall>xs. v \<noteq> JArray xs) \<Longrightarrow> toString X v = Inr s \<Longrightarrow>
     toStringSlice X v = Inr [s]"
  by (cases v) (simp_all add: toStringSlice_def sliceValues_def)

lemma toStringSlice_scalar:
  "scalar v \<Longrightarrow> \<exists>s. toString X v = Inr s \<and> toStringSlice X v = Inr [s]"
  by (cases v) (simp_all add: toString_def toStringSlice_def sliceValues_def)

lemma toStringSlice_empty:
  "toStringSlice X (JArray []) = Inr [] \<and> toStringSlice X JNil = Inr []"
  by (simp add: toStringSlice_def sliceValues_def)

text \<open>
  Claim C7, as stated, fails at \<open>nil\<close> (the JSON \<open>null\<close>), a value that is not a list:
  its \<open>toString\<close> form is the empty string, but \<open>toStringSlice\<close> sends it through the
  \<open>default\<close> branch and returns the empty list, not the list of that one string.
\<close>

theorem toStringSlice_nil_counterexample:
  "toString sample_extern JNil = Inr '''' \<and> toStringSlice sample_extern JNil = Inr [] \<and>
   toStringSlice sample_extern JNil \<noteq> Inr ['''']"
  by (simp add: toString_def toStringSlice_def sliceValues_def)

text \<open>
  Claim C7, amended. For every value that is neither \<open>nil\<close> nor a list and whose
  \<open>toString\<close> form exists, \<open>toStringSlice\<close> succeeds with the one-element list of exactly
  that form; for a bool, a number and a string the form always exists. The empty list
  gives the empty list, and so does \<open>nil\<close>.
\<close>

theorem toStringSlice_wraps:
  "(v \<noteq> JNil \<and> (\<forall>xs. v \<noteq> JArray xs) \<and> toString X v = Inr s \<longrightarrow>
      toStringSlice X v = Inr [s]) \<and>
   (scalar v \<longrightarrow> (\<exists>s'. toString X v = Inr s' \<and> toStringSlice X v = Inr [s'])) \<and>
   toStringSlice X (JArray []) = Inr [] \<and> toStringSlice X JNil = Inr []"
  using toStringSlice_nonlist [of v X s] toStringSlice_scalar [of v X] toStringSlice_empty [of X]
  by blast

theorem toStringSlice_wraps_witness:
  "JNumber 0 \<noteq> JNil \<and> (\<forall>xs. JNumber 0 \<noteq> JArray xs) \<and>
   toString sample_extern (JNumber 0) = Inr ''0'' \<and>
   toStringSlice sample_extern (JNumber 0) = Inr [''0''] \<and>
   scalar (JNumber 0) \<and>
   (\<exists>s'. toString sample_extern (JNumber 0) = Inr s' \<and>
          toStringSlice sample_extern (JNumber 0) = Inr [s'])"
proof -
  have h: "JNumber 0 \<noteq> JNil \<and> (\<forall>xs. JNumber 0 \<noteq> JArray xs) \<and>
           toString sample_extern (JNumber 0) = Inr ''0''"
    by (simp add: toString_def sample_extern_def)
  have s: "scalar (JNumber 0)" by simp
  from toStringSlice_wraps [of "JNumber 0" sample_extern "''0''"] h s show ?thesis by blast
qed

section \<open>Properties of the claim extractor\<close>

subsection \<open>One call\<close>

lemma getProfileClaims_cases:
  "getProfileClaims net c w = ((pc, e), w') \<Longrightarrow>
     (w' = w \<and> pc = Some Map.empty \<and> e = None \<and>
      (profileURL c = None \<or> requestHeaders c = None)) \<or>
     (\<exists>u h. profileURL c = Some u \<and> requestHeaders c = Some h \<and>
        w' = w @ [\<lparr>req_url = u, req_ctx = ctx c, req_headers = h\<rparr>] \<and>
        (case net (length w) \<lparr>req_url = u, req_ctx = ctx c, req_headers = h\<rparr> of
           Inl err \<Rightarrow> pc = None \<and> e \<noteq> None
         | Inr cl \<Rightarrow> pc = cl \<and> e = None))"
  by (auto simp: getProfileClaims_def Let_def split: option.splits sum.splits)

lemma GetClaim_step:
  assumes "GetClaim net claim c w = (r, c', w')"
  shows "(c' = c \<and> w' = w) \<or>
         (profileClaims c = None \<and> claim \<noteq> '''' \<and> tokenClaims c claim = None \<and>
          (\<exists>pc e. getProfileClaims net c w = ((pc, e), w') \<and>
             (case e of Some err \<Rightarrow> c' = c | None \<Rightarrow> c' = c\<lparr>profileClaims := pc\<rparr>)))"
  using assms
  by (auto simp: GetClaim_def split: if_splits option.splits prod.splits)

lemma GetClaimInto_GetClaim:
  assumes "GetClaimInto net X claim d c st w = (r, c', st', w')"
  shows "\<exists>r0. GetClaim net claim c w = (r0, c', w')"
  using assms
  by (auto simp: GetClaimInto_def split: if_splits option.splits prod.splits)

lemma coerceClaim_frame:
  "coerceClaim X v d st = (e, st') \<Longrightarrow> target d \<noteq> Some a \<Longrightarrow> st' a = st a"
  by (cases d) (auto split: sum.splits)

lemma GetClaimInto_store:
  assumes "GetClaimInto net X claim d c st w = (r, c', st', w')" and "target d \<noteq> Some a"
  shows "st' a = st a"
  using assms
  by (auto simp: GetClaimInto_def split: if_splits option.splits prod.splits
      dest: coerceClaim_frame)

lemma GetClaim_frame:
  assumes "GetClaim net claim c w = (r, c', w')"
  shows "profileURL c' = profileURL c \<and> ctx c' = ctx c \<and>
      requestHeaders c' = requestHeaders c \<and> tokenClaims c' = tokenClaims c \<and>
      (profileClaims c' = profileClaims c \<or>
       (profileClaims c = None \<and> profileClaims c' = fst (fst (getProfileClaims net c w))))"
  using GetClaim_step [OF assms]
  by (auto split: option.splits)

lemma GetClaim_requests:
  assumes "GetClaim net claim c w = (r, c', w')"
  shows "(w' = w \<and> (profileClaims c' = profileClaims c \<or> profileClaims c = None)) \<or>
         (\<exists>rq. w' = w @ [rq] \<and> profileClaims c = None \<and>
            (\<forall>m. net (length w) rq = Inr (Some m) \<longrightarrow> profileClaims c' = Some m))"
proof -
  from GetClaim_step [OF assms] consider
      (same) "c' = c" "w' = w"
    | (fetch) pc e where "profileClaims c = None" "getProfileClaims net c w = ((pc, e), w')"
        "case e of Some err \<Rightarrow> c' = c | None \<Rightarrow> c' = c\<lparr>profileClaims := pc\<rparr>"
    by blast
  then show ?thesis
  proof cases
    case same
    then show ?thesis by simp
  next
    case fetch
    from getProfileClaims_cases [OF fetch(2)] consider
        (skip) "w' = w"
      | (sent) u h where "w' = w @ [\<lparr>req_url = u, req_ctx = ctx c, req_headers = h\<rparr>]"
          "case net (length w) \<lparr>req_url = u, req_ctx = ctx c, req_headers = h\<rparr> of
             Inl err \<Rightarrow> pc = None \<and> e \<noteq> None | Inr cl \<Rightarrow> pc = cl \<and> e = None"
      by blast
    then show ?thesis
    proof cases
      case skip
      with fetch(1) show ?thesis by simp
    next
      case (sent u h)
      have "\<forall>m. net (length w) \<lparr>req_url = u, req_ctx = ctx c, req_headers = h\<rparr> = Inr (Some m)
              \<longrightarrow> profileClaims c' = Some m"
        using sent(2) fetch(3) by (auto split: sum.splits)
      with sent(1) fetch(1) show ?thesis by blast
    qed
  qed
qed

lemma GetClaim_populated:
  assumes "GetClaim net claim c w = (r, c', w')" and "profileClaims c \<noteq> None"
  shows "c' = c \<and> w' = w"
  using GetClaim_step [OF assms(1)] assms(2) by auto

lemma GetClaim_no_endpoint:
  assumes "profileURL c = None \<or> requestHeaders c = None"
    and "profileClaims c = None \<or> profileClaims c = Some Map.empty"
    and "GetClaim net claim c w = (r, c', w')"
  shows "w' = w \<and> profileURL c' = profileURL c \<and> requestHeaders c' = requestHeaders c \<and>
         tokenClaims c' = tokenClaims c \<and>
         (profileClaims c' = None \<or> profileClaims c' = Some Map.empty) \<and>
         (tokenClaims c claim = None \<longrightarrow> r = (JNil, False, None)) \<and>
         (tokenClaims c claim = None \<and> claim \<noteq> '''' \<longrightarrow> profileClaims c' = Some Map.empty)"
  using assms
  by (auto simp: GetClaim_def getProfileClaims_def lookupProfile_def
      split: if_splits option.splits prod.splits)

lemma GetClaim_fetch_failure:
  assumes "claim \<noteq> ''''" and "tokenClaims c claim = None" and "profileClaims c = None"
    and "profileURL c = Some u" and "requestHeaders c = Some h"
    and "net (length w) \<lparr>req_url = u, req_ctx = ctx c, req_headers = h\<rparr> = Inl e"
  shows "GetClaim net claim c w =
     ((JNil, False,
       Some (fmt_Errorf ''failed to fetch claims from profile URL: %v''
               [ArgError (fmt_Errorf ''error making request to profile URL: %v'' [ArgError e])])),
      c, w @ [\<lparr>req_url = u, req_ctx = ctx c, req_headers = h\<rparr>])"
  using assms by (simp add: GetClaim_def getProfileClaims_def)

lemma GetClaimInto_error_form:
  "GetClaimInto net X claim d c st w = ((ex, Some e), c', st', w') \<Longrightarrow>
     \<exists>args. e = fmt_Errorf ''could not get claim %q: %v'' args \<or>
            e = fmt_Errorf ''could no coerce claim: %v'' args"
  by (auto simp: GetClaimInto_def split: if_splits option.splits prod.splits)

subsection \<open>Any sequence of calls\<close>

lemma calls_Cons:
  "calls net X (cl # cs) c st w = (c', st', w') \<Longrightarrow>
     \<exists>claim r c1 st1 w1.
       GetClaim net claim c w = (r, c1, w1) \<and> calls net X cs c1 st1 w1 = (c', st', w')"
proof (cases cl)
  case (Call_GetClaim claim)
  assume "calls net X (cl # cs) c st w = (c', st', w')"
  with Call_GetClaim show ?thesis by (fastforce split: prod.splits)
next
  case (Call_GetClaimInto claim d)
  assume "calls net X (cl # cs) c st w = (c', st', w')"
  with Call_GetClaimInto show ?thesis
    by (fastforce split: prod.splits dest: GetClaimInto_GetClaim)
qed

lemma calls_populated:
  "calls net X cs c st w = (c', st', w') \<Longrightarrow> profileClaims c \<noteq> None \<Longrightarrow>
     c' = c \<and> w' = w"
proof (induction cs arbitrary: c st w)
  case Nil
  then show ?case by simp
next
  case (Cons cl cs)
  from calls_Cons [OF Cons.prems(1)] obtain claim r c1 st1 w1 where
    g: "GetClaim net claim c w = (r, c1, w1)" and k: "calls net X cs c1 st1 w1 = (c', st', w')"
    by blast
  from GetClaim_populated [OF g Cons.prems(2)] have "c1 = c" "w1 = w" by simp_all
  with Cons.IH [OF k] Cons.prems(2) show ?case by simp
qed

lemma calls_requests:
  "calls net X cs c st w = (c', st', w') \<Longrightarrow>
     (\<exists>k. w' = w @ k \<and> length k \<le> length cs) \<and>
     (\<forall>i. length w \<le> i \<and> Suc i < length w' \<longrightarrow> (\<forall>m. net i (w' ! i) \<noteq> Inr (Some m)))"
proof (induction cs arbitrary: c st w)
  case Nil
  then show ?case by auto
next
  case (Cons cl cs)
  from calls_Cons [OF Cons.prems] obtain claim r c1 st1 w1 where
    g: "GetClaim net claim c w = (r, c1, w1)" and k: "calls net X cs c1 st1 w1 = (c', st', w')"
    by blast
  from Cons.IH [OF k] obtain k1 where
    p1: "w' = w1 @ k1" and l1: "length k1 \<le> length cs" and
    n1: "\<forall>i. length w1 \<le> i \<and> Suc i < length w' \<longrightarrow> (\<forall>m. net i (w' ! i) \<noteq> Inr (Some m))"
    by blast
  from GetClaim_requests [OF g] consider
      (quiet) "w1 = w"
    | (sent) rq where "w1 = w @ [rq]"
        "\<forall>m. net (length w) rq = Inr (Some m) \<longrightarrow> profileClaims c1 = Some m"
    by blast
  then show ?case
  proof cases
    case quiet
    with p1 l1 n1 show ?thesis by auto
  next
    case (sent rq)
    note w1 = sent(1) and m = sent(2)
    have pre: "\<exists>k. w' = w @ k \<and> length k \<le> length (cl # cs)"
      using w1 p1 l1 by simp
    have "\<forall>m. net i (w' ! i) \<noteq> Inr (Some m)" if i: "length w \<le> i" "Suc i < length w'" for i
    proof (cases "i = length w")
      case True
      show ?thesis
      proof
        fix m
        show "net i (w' ! i) \<noteq> Inr (Some m)"
        proof
          assume a: "net i (w' ! i) = Inr (Some m)"
          have "w' ! i = rq" using True w1 p1 by (simp add: nth_append)
          with a True m have "profileClaims c1 \<noteq> None" by auto
          from calls_populated [OF k this] have "w' = w1" by simp
          with i True w1 show False by simp
        qed
      qed
    next
      case False
      with i w1 have "length w1 \<le> i" by simp
      with n1 i show ?thesis by blast
    qed
    with pre show ?thesis by blast
  qed
qed

lemma calls_no_endpoint:
  "profileURL c = None \<or> requestHeaders c = None \<Longrightarrow>
   profileClaims c = None \<or> profileClaims c = Some Map.empty \<Longrightarrow>
   calls net X cs c st w = (c', st', w') \<Longrightarrow>
     w' = w \<and> (profileURL c' = None \<or> requestHeaders c' = None) \<and>
     tokenClaims c' = tokenClaims c \<and>
     (profileClaims c' = None \<or> profileClaims c' = Some Map.empty)"
proof (induction cs arbitrary: c st w)
  case Nil
  then show ?case by auto
next
  case (Cons cl cs)
  from calls_Cons [OF Cons.prems(3)] obtain claim r c1 st1 w1 where
    g: "GetClaim net claim c w = (r, c1, w1)" and k: "calls net X cs c1 st1 w1 = (c', st', w')"
    by blast
  note s = GetClaim_no_endpoint [OF Cons.prems(1,2) g]
  from s Cons.prems(1) have e1: "profileURL c1 = None \<or> requestHeaders c1 = None" by auto
  from s have p1: "profileClaims c1 = None \<or> profileClaims c1 = Some Map.empty" by blast
  from Cons.IH [OF e1 p1 k] s show ?case by simp
qed

subsection \<open>Lookups\<close>

text \<open>
  Claim C9. \<open>GetClaim\<close> with the empty name returns (nil, false, nil), whatever the
  token claims, the profile claims and the network are; the extractor is left as it
  was and no request is sent.
\<close>

theorem GetClaim_empty_name: "GetClaim net '''' c w = ((JNil, False, None), c, w)"
  by (simp add: GetClaim_def)

text \<open>
  Claim C2, as stated, fails at the empty name: a token whose payload has the key
  \<open>""\<close> holds a claim of that name, and \<open>GetClaim\<close> answers "not found" for it, by
  the guard on its first line.
\<close>

theorem GetClaim_empty_key_counterexample:
  "tokenClaims (sample_extractor\<lparr>tokenClaims := ['''' \<mapsto> JString ''x'']\<rparr>) '''' =
     Some (JString ''x'') \<and>
   fst (GetClaim net_down '''' (sample_extractor\<lparr>tokenClaims := ['''' \<mapsto> JString ''x'']\<rparr>) []) =
     (JNil, False, None)"
  by (simp add: GetClaim_def)

text \<open>
  Claim C2, amended. For every claim name that is not empty and is present in the token
  claims, \<open>GetClaim\<close> returns the token's value with found = true and no error, whatever
  the profile claims \<open>pc\<close> and the network are; the extractor is left as it was and no
  request is sent. And a call that changes the extractor or sends a request is a call
  for a name, not empty, that the token claims do not have.
\<close>

theorem GetClaim_token_first:
  "(claim \<noteq> '''' \<and> tokenClaims c claim = Some v \<longrightarrow>
      GetClaim net claim (c\<lparr>profileClaims := pc\<rparr>) w =
        ((v, True, None), c\<lparr>profileClaims := pc\<rparr>, w)) \<and>
   (GetClaim net claim c w = (r, c', w') \<and> (c' \<noteq> c \<or> w' \<noteq> w) \<longrightarrow>
      claim \<noteq> '''' \<and> tokenClaims c claim = None)"
proof (intro conjI impI)
  assume "claim \<noteq> '''' \<and> tokenClaims c claim = Some v"
  then show "GetClaim net claim (c\<lparr>profileClaims := pc\<rparr>) w =
        ((v, True, None), c\<lparr>profileClaims := pc\<rparr>, w)"
    by (simp add: GetClaim_def)
next
  assume a: "GetClaim net claim c w = (r, c', w') \<and> (c' \<noteq> c \<or> w' \<noteq> w)"
  then have g: "GetClaim net claim c w = (r, c', w')" and d: "c' \<noteq> c \<or> w' \<noteq> w"
    by simp_all
  from GetClaim_step [OF g] d show "claim \<noteq> ''''" by blast
  from GetClaim_step [OF g] d show "tokenClaims c claim = None" by blast
qed

theorem GetClaim_token_first_witness:
  "''sub'' \<noteq> '''' \<and> tokenClaims sample_extractor ''sub'' = Some (JString ''u1'') \<and>
   GetClaim net_down ''sub''
     (sample_extractor\<lparr>profileClaims := Some [''sub'' \<mapsto> JString ''u2'']\<rparr>) [] =
     ((JString ''u1'', True, None),
      sample_extractor\<lparr>profileClaims := Some [''sub'' \<mapsto> JString ''u2'']\<rparr>, []) \<and>
   GetClaim net_down ''email'' sample_extractor [] =
     ((JNil, False,
       Some (fmt_Errorf ''failed to fetch claims from profile URL: %v''
               [ArgError (fmt_Errorf ''error making request to profile URL: %v''
                            [ArgError (errors_New ''connection refused'')])])),
      sample_extractor, [sample_request]) \<and>
   tokenClaims sample_extractor ''email'' = None"
proof -
  have h1: "''sub'' \<noteq> '''' \<and> tokenClaims sample_extractor ''sub'' = Some (JString ''u1'')"
    by (simp add: sample_extractor_def)
  have h2: "GetClaim net_down ''email'' sample_extractor [] =
     ((JNil, False,
       Some (fmt_Errorf ''failed to fetch claims from profile URL: %v''
               [ArgError (fmt_Errorf ''error making request to profile URL: %v''
                            [ArgError (errors_New ''connection refused'')])])),
      sample_extractor, [sample_request])"
    by (simp add: GetClaim_def getProfileClaims_def sample_extractor_def net_down_def
        sample_request_def)
  have h3: "[sample_request] \<noteq> []" by simp
  from GetClaim_token_first [of "''sub''" sample_extractor "JString ''u1''" net_down
      "Some [''sub'' \<mapsto> JString ''u2'']" "[]" "(JNil, False, None)" sample_extractor "[]"]
    h1
  have a: "GetClaim net_down ''sub''
     (sample_extractor\<lparr>profileClaims := Some [''sub'' \<mapsto> JString ''u2'']\<rparr>) [] =
     ((JString ''u1'', True, None),
      sample_extractor\<lparr>profileClaims := Some [''sub'' \<mapsto> JString ''u2'']\<rparr>, [])"
    by blast
  from GetClaim_token_first [of "''email''" sample_extractor "JNil" net_down None "[]"
      "(JNil, False,
        Some (fmt_Errorf ''failed to fetch claims from profile URL: %v''
               [ArgError (fmt_Errorf ''error making request to profile URL: %v''
                            [ArgError (errors_New ''connection refused'')])]))"
      sample_extractor "[sample_request]"] h2 h3
  have b: "tokenClaims sample_extractor ''email'' = None" by blast
  from h1 h2 a b show ?thesis by blast
qed

subsection \<open>The profile fetch\<close>

text \<open>
  Claim C1, as stated, fails: a fetch that failed is not remembered. With a network
  that refuses every request, a lookup of \<open>email\<close> and then a lookup of \<open>groups\<close>, both
  absent from the token claims, send two requests.
\<close>

theorem fetch_retried_counterexample:
  "length (snd (snd (calls net_down sample_extern
      [Call_GetClaim ''email'', Call_GetClaim ''groups''] sample_extractor empty_store []))) = 2"
  by (simp add: GetClaim_def getProfileClaims_def sample_extractor_def net_down_def)

text \<open>
  Claim C1, amended. Over any sequence of \<open>GetClaim\<close> and \<open>GetClaimInto\<close> calls on one
  extractor: the requests sent only grow, by at most one for each call; once the
  profile claim set is populated, no call sends a request or changes the extractor; and
  every request but the last one sent did not deliver a mapping (it failed, or left
  the map nil). So the profile claim set is populated at most once, by at most one
  request. A fetch that fails is returned to the lookup as an error and is not
  remembered: the lookup sends its one request and leaves the extractor as it was,
  still unpopulated.
\<close>

theorem profile_fetch_policy:
  "(calls net X cs c st w = (c', st', w') \<longrightarrow>
      (\<exists>k. w' = w @ k \<and> length k \<le> length cs) \<and>
      (profileClaims c \<noteq> None \<longrightarrow> w' = w \<and> c' = c) \<and>
      (\<forall>i. length w \<le> i \<and> Suc i < length w' \<longrightarrow> (\<forall>m. net i (w' ! i) \<noteq> Inr (Some m)))) \<and>
   (claim \<noteq> '''' \<and> tokenClaims c claim = None \<and> profileClaims c = None \<and>
    profileURL c = Some u \<and> requestHeaders c = Some h \<and>
    net (length w) \<lparr>req_url = u, req_ctx = ctx c, req_headers = h\<rparr> = Inl e \<longrightarrow>
      GetClaim net claim c w =
        ((JNil, False,
          Some (fmt_Errorf ''failed to fetch claims from profile URL: %v''
                  [ArgError (fmt_Errorf ''error making request to profile URL: %v''
                               [ArgError e])])),
         c, w @ [\<lparr>req_url = u, req_ctx = ctx c, req_headers = h\<rparr>]))"
  using calls_requests [of net X cs c st w c' st' w'] calls_populated [of net X cs c st w c' st' w']
    GetClaim_fetch_failure [of claim c u h net w e]
  by blast

theorem profile_fetch_policy_witness:
  "calls net_flaky sample_extern
      [Call_GetClaim ''email'', Call_GetClaim ''groups'', Call_GetClaim ''name'']
      sample_extractor empty_store [] =
     (sample_extractor\<lparr>profileClaims := Some [''email_verified'' \<mapsto> JBool True]\<rparr>, empty_store,
      [sample_request, sample_request]) \<and>
   (\<forall>m. net_flaky 0 sample_request \<noteq> Inr (Some m)) \<and>
   net_flaky 0 sample_request = Inl (errors_New ''timeout'') \<and>
   GetClaim net_flaky ''email'' sample_extractor [] =
     ((JNil, False,
       Some (fmt_Errorf ''failed to fetch claims from profile URL: %v''
               [ArgError (fmt_Errorf ''error making request to profile URL: %v''
                            [ArgError (errors_New ''timeout'')])])),
      sample_extractor, [sample_request])"
proof -
  have h: "calls net_flaky sample_extern
      [Call_GetClaim ''email'', Call_GetClaim ''groups'', Call_GetClaim ''name'']
      sample_extractor empty_store [] =
     (sample_extractor\<lparr>profileClaims := Some [''email_verified'' \<mapsto> JBool True]\<rparr>, empty_store,
      [sample_request, sample_request])"
    by (simp add: GetClaim_def getProfileClaims_def sample_extractor_def net_flaky_def
        lookupProfile_def sample_request_def)
  have f: "''email'' \<noteq> '''' \<and> tokenClaims sample_extractor ''email'' = None \<and>
      profileClaims sample_extractor = None \<and>
      profileURL sample_extractor = Some ''https://idp.example.com/userinfo'' \<and>
      requestHeaders sample_extractor = Some [''Authorization'' \<mapsto> [''Bearer t'']] \<and>
      net_flaky (length ([] :: request list))
        \<lparr>req_url = ''https://idp.example.com/userinfo'', req_ctx = ctx sample_extractor,
         req_headers = [''Authorization'' \<mapsto> [''Bearer t'']]\<rparr> = Inl (errors_New ''timeout'')"
    by (simp add: sample_extractor_def net_flaky_def)
  note p = profile_fetch_policy [of net_flaky sample_extern
      "[Call_GetClaim ''email'', Call_GetClaim ''groups'', Call_GetClaim ''name'']"
      sample_extractor empty_store "[]"
      "sample_extractor\<lparr>profileClaims := Some [''email_verified'' \<mapsto> JBool True]\<rparr>"
      empty_store "[sample_request, sample_request]" "''email''"
      "''https://idp.example.com/userinfo''" "[''Authorization'' \<mapsto> [''Bearer t'']]"
      "errors_New ''timeout''"]
  from p h have "\<forall>i. length ([] :: request list) \<le> i \<and>
        Suc i < length [sample_request, sample_request] \<longrightarrow>
        (\<forall>m. net_flaky i ([sample_request, sample_request] ! i) \<noteq> Inr (Some m))"
    by blast
  then have a: "\<forall>m. net_flaky 0 sample_request \<noteq> Inr (Some m)" by simp
  from p f have "GetClaim net_flaky ''email'' sample_extractor [] =
     ((JNil, False,
       Some (fmt_Errorf ''failed to fetch claims from profile URL: %v''
               [ArgError (fmt_Errorf ''error making request to profile URL: %v''
                            [ArgError (errors_New ''timeout'')])])),
      sample_extractor,
      [] @ [\<lparr>req_url = ''https://idp.example.com/userinfo'', req_ctx = ctx sample_extractor,
         req_headers = [''Authorization'' \<mapsto> [''Bearer t'']]\<rparr>])"
    by blast
  then have b: "GetClaim net_flaky ''email'' sample_extractor [] =
     ((JNil, False,
       Some (fmt_Errorf ''failed to fetch claims from profile URL: %v''
               [ArgError (fmt_Errorf ''error making request to profile URL: %v''
                            [ArgError (errors_New ''timeout'')])])),
      sample_extractor, [sample_request])"
    by (simp add: sample_request_def sample_extractor_def)
  have c: "net_flaky 0 sample_request = Inl (errors_New ''timeout'')"
    by (simp add: net_flaky_def)
  from h a b c show ?thesis by blast
qed

text \<open>
  Claim C5. An extractor built by \<open>NewClaimExtractor\<close> without a profile endpoint, or
  without request headers, never sends a request, whatever calls are made on it; and
  after any such calls, \<open>GetClaim\<close> for a name absent from the token claims returns
  (nil, false, nil) and sends no request. The profile claim set such a lookup leaves is
  the empty mapping.
\<close>

theorem no_endpoint_not_found:
  assumes "NewClaimExtractor cx tok u h = Inr c0" and "u = None \<or> h = None"
    and "calls net X cs c0 st w = (c, st', w')"
    and "tokenClaims c0 claim = None"
  shows "w' = w \<and> fst (GetClaim net claim c w') = (JNil, False, None) \<and>
         snd (snd (GetClaim net claim c w')) = w' \<and>
         (claim = '''' \<or>
          profileClaims (fst (snd (GetClaim net claim c w'))) = Some Map.empty)"
proof -
  from assms(1) have c0: "profileURL c0 = u" "requestHeaders c0 = h" "profileClaims c0 = None"
    by (auto simp: NewClaimExtractor_def split: sum.splits)
  from c0 assms(2) have e0: "profileURL c0 = None \<or> requestHeaders c0 = None" by simp
  from c0 have p0: "profileClaims c0 = None \<or> profileClaims c0 = Some Map.empty" by simp
  note k = calls_no_endpoint [OF e0 p0 assms(3)]
  obtain r c2 w2 where g: "GetClaim net claim c w' = (r, c2, w2)"
    by (metis prod_cases3)
  from k have e: "profileURL c = None \<or> requestHeaders c = None"
    and p: "profileClaims c = None \<or> profileClaims c = Some Map.empty" by simp_all
  from GetClaim_no_endpoint [OF e p g] k assms(4) g show ?thesis by auto
qed

theorem no_endpoint_not_found_witness:
  "NewClaimExtractor context_TODO sample_token_unmarked None None =
     Inr (token_extractor sample_token_unmarked) \<and>
   calls net_down sample_extern [Call_GetClaim ''preferred_username'']
     (token_extractor sample_token_unmarked) empty_store [] =
     ((token_extractor sample_token_unmarked)\<lparr>profileClaims := Some Map.empty\<rparr>,
      empty_store, []) \<and>
   tokenClaims (token_extractor sample_token_unmarked) ''email_verified'' = None \<and>
   fst (GetClaim net_down ''email_verified''
          ((token_extractor sample_token_unmarked)\<lparr>profileClaims := Some Map.empty\<rparr>) []) =
     (JNil, False, None) \<and>
   snd (snd (GetClaim net_down ''email_verified''
          ((token_extractor sample_token_unmarked)\<lparr>profileClaims := Some Map.empty\<rparr>) [])) = []"
proof -
  have h1: "NewClaimExtractor context_TODO sample_token_unmarked None None =
     Inr (token_extractor sample_token_unmarked)"
    by (simp add: NewClaimExtractor_def token_extractor_def sample_token_unmarked_def)
  have h2: "(None :: url option) = None \<or> (None :: header option) = None" by simp
  have h3: "calls net_down sample_extern [Call_GetClaim ''preferred_username'']
     (token_extractor sample_token_unmarked) empty_store [] =
     ((token_extractor sample_token_unmarked)\<lparr>profileClaims := Some Map.empty\<rparr>,
      empty_store, [])"
    by (simp add: GetClaim_def getProfileClaims_def lookupProfile_def token_extractor_def
        sample_token_unmarked_def)
  have h4: "tokenClaims (token_extractor sample_token_unmarked) ''email_verified'' = None"
    by (simp add: token_extractor_def sample_token_unmarked_def)
  from no_endpoint_not_found [OF h1 h2 h3 h4] h1 h3 h4 show ?thesis by simp
qed

text \<open>
  Claim C10. A call of \<open>GetClaim\<close> or \<open>GetClaimInto\<close> leaves the profile URL, the
  context, the request headers and the token claims of the extractor as they were. The
  profile claim set is as it was, or it was nil and is now what \<open>getProfileClaims\<close>
  returned. \<open>GetClaimInto\<close> leaves every address of the store as it was, except the
  one its destination points to.
\<close>

theorem extractor_frame:
  "(GetClaim net claim c w = (r, c', w') \<longrightarrow>
      profileURL c' = profileURL c \<and> ctx c' = ctx c \<and> requestHeaders c' = requestHeaders c \<and>
      tokenClaims c' = tokenClaims c \<and>
      (profileClaims c' = profileClaims c \<or>
       (profileClaims c = None \<and> profileClaims c' = fst (fst (getProfileClaims net c w))))) \<and>
   (GetClaimInto net X claim d c st w = (ri, ci, sti, wi) \<longrightarrow>
      profileURL ci = profileURL c \<and> ctx ci = ctx c \<and> requestHeaders ci = requestHeaders c \<and>
      tokenClaims ci = tokenClaims c \<and>
      (profileClaims ci = profileClaims c \<or>
       (profileClaims c = None \<and> profileClaims ci = fst (fst (getProfileClaims net c w)))) \<and>
      (\<forall>a. target d \<noteq> Some a \<longrightarrow> sti a = st a))"
proof (intro conjI impI)
  assume g: "GetClaimInto net X claim d c st w = (ri, ci, sti, wi)"
  from GetClaimInto_GetClaim [OF g] obtain r0 where g0: "GetClaim net claim c w = (r0, ci, wi)" ..
  note f = GetClaim_frame [OF g0]
  from f show "profileURL ci = profileURL c" by blast
  from f show "ctx ci = ctx c" by blast
  from f show "requestHeaders ci = requestHeaders c" by blast
  from f show "tokenClaims ci = tokenClaims c" by blast
  from f show "profileClaims ci = profileClaims c \<or>
       (profileClaims c = None \<and> profileClaims ci = fst (fst (getProfileClaims net c w)))"
    by blast
  from g show "\<forall>a. target d \<noteq> Some a \<longrightarrow> sti a = st a"
    by (blast dest: GetClaimInto_store)
qed (blast dest: GetClaim_frame)+

theorem extractor_frame_witness:
  "GetClaimInto net_profile sample_extern ''email_verified'' (PtrBool 1) sample_extractor
      empty_store [] =
     ((True, None), sample_extractor\<lparr>profileClaims := Some [''email_verified'' \<mapsto> JBool True]\<rparr>,
      empty_store(1 := BoolCell True), [sample_request]) \<and>
   fst (fst (getProfileClaims net_profile sample_extractor [])) =
     Some [''email_verified'' \<mapsto> JBool True] \<and>
   target (PtrBool (1::nat)) \<noteq> Some 2 \<and>
   (empty_store(1 := BoolCell True)) 2 = empty_store 2"
proof -
  have h: "GetClaimInto net_profile sample_extern ''email_verified'' (PtrBool 1) sample_extractor
      empty_store [] =
     ((True, None), sample_extractor\<lparr>profileClaims := Some [''email_verified'' \<mapsto> JBool True]\<rparr>,
      empty_store(1 := BoolCell True), [sample_request])"
    by (simp add: GetClaimInto_def GetClaim_def getProfileClaims_def lookupProfile_def
        sample_extractor_def net_profile_def sample_request_def)
  have t: "target (PtrBool (1::nat)) \<noteq> Some 2" by simp
  have p: "fst (fst (getProfileClaims net_profile sample_extractor [])) =
     Some [''email_verified'' \<mapsto> JBool True]"
    by (simp add: getProfileClaims_def sample_extractor_def net_profile_def)
  from extractor_frame [of net_profile "''email_verified''" sample_extractor "[]"
      "(JBool True, True, None)"
      "sample_extractor\<lparr>profileClaims := Some [''email_verified'' \<mapsto> JBool True]\<rparr>"
      "[sample_request]" sample_extern "PtrBool 1" empty_store "(True, None)"
      "sample_extractor\<lparr>profileClaims := Some [''email_verified'' \<mapsto> JBool True]\<rparr>"
      "empty_store(1 := BoolCell True)" "[sample_request]"] h t
  have "(empty_store(1 := BoolCell True)) 2 = empty_store 2" by blast
  with h p t show ?thesis by blast
qed

section \<open>Properties of the provider functions\<close>

text \<open>
  Claim C8. Whenever \<open>GetClientSecret\<close> reads the secret file and the read fails, it
  returns the empty secret and the error \<open>errors.New("could not read client secret
  file")\<close>: one constant, the same for every file name, every cause of the failure
  and every other field of the provider, so nothing of the file's name or contents
  reaches it. The file name and the cause go to the log line only.
\<close>

theorem GetClientSecret_generic_error:
  "ClientSecret p = '''' \<Longrightarrow> ClientSecretFile p \<noteq> '''' \<Longrightarrow> fs (ClientSecretFile p) = Inl e \<Longrightarrow>
   GetClientSecret fs p =
     ('''', Some (errors_New ''could not read client secret file''),
      [(''error reading client secret file %s: %s'',
        [ArgString (ClientSecretFile p), ArgError e])])"
  by (simp add: GetClientSecret_def)

theorem GetClientSecret_generic_error_witness:
  "ClientSecret sample_provider = '''' \<and> ClientSecretFile sample_provider \<noteq> '''' \<and>
   fst (GetClientSecret (\<lambda>path. Inl (errors_New ''open: no such file or directory''))
          sample_provider) = '''' \<and>
   fst (snd (GetClientSecret (\<lambda>path. Inl (errors_New ''open: no such file or directory''))
          sample_provider)) =
     Some (errors_New ''could not read client secret file'')"
proof -
  have h1: "ClientSecret sample_provider = ''''" by (simp add: sample_provider_def)
  have h2: "ClientSecretFile sample_provider \<noteq> ''''" by (simp add: sample_provider_def)
  have h3: "(\<lambda>path. Inl (errors_New ''open: no such file or directory'') :: error + string)
              (ClientSecretFile sample_provider) =
            Inl (errors_New ''open: no such file or directory'')"
    by simp
  from GetClientSecret_generic_error [OF h1 h2 h3] h1 h2 show ?thesis by simp
qed

subsection \<open>Session assembly\<close>

lemma session_of_verified: "session_of (st(var_verified := x)) = session_of st"
  by (simp add: session_of_def getString_def getSlice_def)

lemma getString_verified: "getString (st(var_verified := x)) ss_Email = getString st ss_Email"
  by (simp add: getString_def)

lemma Email_session_of: "Email (session_of st) = getString st ss_Email"
  by (simp add: session_of_def)

lemma claimLoop_error_form:
  "claimLoop net X m ks c st w = (Inl e, w') \<Longrightarrow>
     \<exists>args. e = fmt_Errorf ''could not get claim %q: %v'' args \<or>
            e = fmt_Errorf ''could no coerce claim: %v'' args"
proof (induction ks arbitrary: c st w)
  case Nil
  then show ?case by simp
next
  case (Cons claim ks)
  show ?case
  proof (cases "m claim")
    case None
    with Cons.prems have "claimLoop net X m ks c st w = (Inl e, w')" by simp
    from Cons.IH [OF this] show ?thesis .
  next
    case (Some d)
    obtain ex oe c1 st1 w1 where g: "GetClaimInto net X claim d c st w = ((ex, oe), c1, st1, w1)"
      by (metis prod_cases4 surj_pair)
    show ?thesis
    proof (cases oe)
      case None
      with Cons.prems Some g have "claimLoop net X m ks c1 st1 w1 = (Inl e, w')" by simp
      from Cons.IH [OF this] show ?thesis .
    next
      case (Some e1)
      with Cons.prems \<open>m claim = Some d\<close> g have "e = e1" by simp
      with g Some GetClaimInto_error_form [of net X claim d c st w ex e c1 st1 w1]
      show ?thesis by simp
    qed
  qed
qed

lemma enforcement_at_check:
  assumes "EmailClaim p = OIDCEmailClaim" and "\<not> AllowUnverifiedEmail p"
    and "getClaimExtractor p tok accessToken = Inr ce"
    and "claimLoop net X (claimDsts p) ks ce ss_zero w = (Inr (cl, stl), wl)"
    and "GetClaim net ''email_verified'' cl wl = ((v, found, err), cv, wv)"
  shows "fst (buildSessionFromClaims net X ks p (Some tok) accessToken w) =
     (case err of
        Some e \<Rightarrow>
          Inl (fmt_Errorf ''could not get claim %q: %v''
                 [ArgString ''email_verified'', ArgError e])
      | None \<Rightarrow>
          (if found \<and> \<not> cast_ToBool X v
           then Inl (fmt_Errorf ''email in id_token (%s) isn't verified''
                       [ArgString (Email (session_of stl))])
           else Inr (session_of stl)))"
  using assms
  by (auto simp: buildSessionFromClaims_def GetClaimInto_def getBool_def
      session_of_verified getString_verified Email_session_of split: option.splits)

lemma unverified_only_if:
  assumes "fst (buildSessionFromClaims net X ks p idToken accessToken w) =
             Inl (fmt_Errorf ''email in id_token (%s) isn't verified'' args)"
  shows "EmailClaim p = OIDCEmailClaim \<and> \<not> AllowUnverifiedEmail p \<and>
     (\<exists>tok ce cl stl wl v cv wv.
        idToken = Some tok \<and> getClaimExtractor p tok accessToken = Inr ce \<and>
        claimLoop net X (claimDsts p) ks ce ss_zero w = (Inr (cl, stl), wl) \<and>
        GetClaim net ''email_verified'' cl wl = ((v, True, None), cv, wv) \<and>
        \<not> cast_ToBool X v \<and> args = [ArgString (Email (session_of stl))])"
proof (cases idToken)
  case None
  with assms show ?thesis by (simp add: buildSessionFromClaims_def)
next
  case (Some tok)
  show ?thesis
  proof (cases "getClaimExtractor p tok accessToken")
    case (Inl e)
    then obtain e' where "e = fmt_Errorf ''could not initialise claim extractor: %v'' [ArgError e']"
      by (auto simp: getClaimExtractor_def split: sum.splits)
    with assms Some Inl show ?thesis by (simp add: buildSessionFromClaims_def)
  next
    case (Inr ce)
    obtain res wl where l: "claimLoop net X (claimDsts p) ks ce ss_zero w = (res, wl)"
      by (metis surj_pair)
    show ?thesis
    proof (cases res)
      case (Inl e)
      from claimLoop_error_form [of net X "claimDsts p" ks ce ss_zero w e wl] l Inl
      have "e \<noteq> fmt_Errorf ''email in id_token (%s) isn't verified'' args" by auto
      with assms Some \<open>getClaimExtractor p tok accessToken = Inr ce\<close> l Inl
      show ?thesis by (simp add: buildSessionFromClaims_def)
    next
      case (Inr cs)
      obtain cl stl where cs: "cs = (cl, stl)" by (metis surj_pair)
      obtain v found err cv wv where
        g: "GetClaim net ''email_verified'' cl wl = ((v, found, err), cv, wv)"
        by (metis prod_cases3)
      from assms Some \<open>getClaimExtractor p tok accessToken = Inr ce\<close> l Inr cs g
      have "EmailClaim p = OIDCEmailClaim \<and> \<not> AllowUnverifiedEmail p \<and> found \<and> err = None \<and>
            \<not> cast_ToBool X v \<and> args = [ArgString (Email (session_of stl))]"
        by (auto simp: buildSessionFromClaims_def GetClaimInto_def getBool_def
          session_of_verified getString_verified Email_session_of
          split: option.splits if_splits)
      with Some \<open>getClaimExtractor p tok accessToken = Inr ce\<close> l Inr cs g show ?thesis by simp
    qed
  qed
qed

text \<open>
  Claim C3. Let enforcement apply (the email claim name is \<open>email\<close> and unverified
  emails are not allowed), and let assembly reach the check: the extractor was built
  and the loop over the four claims ended without an error, leaving the store \<open>stl\<close>.
  Then, if the lookup of \<open>email_verified\<close> returns no error, assembly fails with the
  "isn't verified" error carrying the session's email exactly when the claim is found
  and \<open>cast.ToBool\<close> of its value is false, and otherwise (so whenever the claim is
  absent) succeeds with the session read from \<open>stl\<close>; an error of the lookup itself is
  passed on. Conversely, on any run at all, assembly fails with the "isn't verified"
  error only when enforcement applies, the check was reached, the claim was found and
  its value coerces to false, and the error then carries the session's email.
\<close>

theorem email_verification_enforced:
  "(EmailClaim p = OIDCEmailClaim \<and> \<not> AllowUnverifiedEmail p \<and>
    getClaimExtractor p tok accessToken = Inr ce \<and>
    claimLoop net X (claimDsts p) ks ce ss_zero w = (Inr (cl, stl), wl) \<and>
    GetClaim net ''email_verified'' cl wl = ((v, found, err), cv, wv) \<longrightarrow>
      fst (buildSessionFromClaims net X ks p (Some tok) accessToken w) =
        (case err of
           Some e \<Rightarrow>
             Inl (fmt_Errorf ''could not get claim %q: %v''
                    [ArgString ''email_verified'', ArgError e])
         | None \<Rightarrow>
             (if found \<and> \<not> cast_ToBool X v
              then Inl (fmt_Errorf ''email in id_token (%s) isn't verified''
                          [ArgString (Email (session_of stl))])
              else Inr (session_of stl)))) \<and>
   (fst (buildSessionFromClaims net X ks p idToken accessToken w) =
      Inl (fmt_Errorf ''email in id_token (%s) isn't verified'' args) \<longrightarrow>
      EmailClaim p = OIDCEmailClaim \<and> \<not> AllowUnverifiedEmail p \<and>
      (\<exists>tok' ce' cl' stl' wl' v' cv' wv'.
         idToken = Some tok' \<and> getClaimExtractor p tok' accessToken = Inr ce' \<and>
         claimLoop net X (claimDsts p) ks ce' ss_zero w = (Inr (cl', stl'), wl') \<and>
         GetClaim net ''email_verified'' cl' wl' = ((v', True, None), cv', wv') \<and>
         \<not> cast_ToBool X v' \<and> args = [ArgString (Email (session_of stl'))]))"
proof (intro conjI impI)
  assume "EmailClaim p = OIDCEmailClaim \<and> \<not> AllowUnverifiedEmail p \<and>
    getClaimExtractor p tok accessToken = Inr ce \<and>
    claimLoop net X (claimDsts p) ks ce ss_zero w = (Inr (cl, stl), wl) \<and>
    GetClaim net ''email_verified'' cl wl = ((v, found, err), cv, wv)"
  then show "fst (buildSessionFromClaims net X ks p (Some tok) accessToken w) =
        (case err of
           Some e \<Rightarrow>
             Inl (fmt_Errorf ''could not get claim %q: %v''
                    [ArgString ''email_verified'', ArgError e])
         | None \<Rightarrow>
             (if found \<and> \<not> cast_ToBool X v
              then Inl (fmt_Errorf ''email in id_token (%s) isn't verified''
                          [ArgString (Email (session_of stl))])
              else Inr (session_of stl)))"
    using enforcement_at_check [of p tok accessToken ce net X ks w cl stl wl v found err cv wv]
    by blast
next
  assume a: "fst (buildSessionFromClaims net X ks p idToken accessToken w) =
      Inl (fmt_Errorf ''email in id_token (%s) isn't verified'' args)"
  from unverified_only_if [OF a] show "EmailClaim p = OIDCEmailClaim" by blast
  from unverified_only_if [OF a] show "\<not> AllowUnverifiedEmail p" by blast
  from unverified_only_if [OF a]
  show "\<exists>tok' ce' cl' stl' wl' v' cv' wv'.
         idToken = Some tok' \<and> getClaimExtractor p tok' accessToken = Inr ce' \<and>
         claimLoop net X (claimDsts p) ks ce' ss_zero w = (Inr (cl', stl'), wl') \<and>
         GetClaim net ''email_verified'' cl' wl' = ((v', True, None), cv', wv') \<and>
         \<not> cast_ToBool X v' \<and> args = [ArgString (Email (session_of stl'))]"
    by blast
qed

lemmas eval_defs = getClaimExtractor_def NewClaimExtractor_def
  getAuthorizationHeader_def sample_provider_def sample_order_def claimDsts_def GetClaimInto_def
  GetClaim_def getProfileClaims_def lookupProfile_def toString_def toStringSlice_def
  sliceValues_def sample_token_def sample_token_unmarked_def token_extractor_def

theorem email_verification_enforced_witness:
  "range_order (claimDsts sample_provider) sample_order \<and>
   fst (buildSessionFromClaims net_down sample_extern sample_order sample_provider
          (Some sample_token) '''' []) =
     Inl (fmt_Errorf ''email in id_token (%s) isn't verified'' [ArgString ''a@example.com'']) \<and>
   fst (buildSessionFromClaims net_down sample_extern sample_order sample_provider
          (Some sample_token_unmarked) '''' []) =
     Inr \<lparr>User = ''u1'', Email = ''a@example.com'', Groups = [''g1'', ''g2''],
          PreferredUsername = '''', Nonce = ''''\<rparr>"
proof -
  let ?st = "ss_zero(ss_User := StringCell ''u1'', ss_Email := StringCell ''a@example.com'',
               ss_Groups := SliceCell [''g1'', ''g2''])"
  let ?a = "(token_extractor sample_token)\<lparr>profileClaims := Some Map.empty\<rparr>"
  let ?b = "(token_extractor sample_token_unmarked)\<lparr>profileClaims := Some Map.empty\<rparr>"
  have a: "EmailClaim sample_provider = OIDCEmailClaim \<and> \<not> AllowUnverifiedEmail sample_provider \<and>
      getClaimExtractor sample_provider sample_token '''' = Inr (token_extractor sample_token) \<and>
      claimLoop net_down sample_extern (claimDsts sample_provider) sample_order
        (token_extractor sample_token) ss_zero [] = (Inr (?a, ?st), []) \<and>
      GetClaim net_down ''email_verified'' ?a [] = ((JBool False, True, None), ?a, [])"
    by (simp add: eval_defs OIDCEmailClaim_def)
  have b: "EmailClaim sample_provider = OIDCEmailClaim \<and> \<not> AllowUnverifiedEmail sample_provider \<and>
      getClaimExtractor sample_provider sample_token_unmarked '''' =
        Inr (token_extractor sample_token_unmarked) \<and>
      claimLoop net_down sample_extern (claimDsts sample_provider) sample_order
        (token_extractor sample_token_unmarked) ss_zero [] = (Inr (?b, ?st), []) \<and>
      GetClaim net_down ''email_verified'' ?b [] = ((JNil, False, None), ?b, [])"
    by (simp add: eval_defs OIDCEmailClaim_def)
  from a email_verification_enforced [of sample_provider sample_token "''''"
      "token_extractor sample_token" net_down sample_extern sample_order "[]" ?a ?st "[]"
      "JBool False" True None ?a "[]" None "[]"]
  have ra: "fst (buildSessionFromClaims net_down sample_extern sample_order sample_provider
          (Some sample_token) '''' []) =
      Inl (fmt_Errorf ''email in id_token (%s) isn't verified''
             [ArgString (Email (session_of ?st))])"
    by simp
  from b email_verification_enforced [of sample_provider sample_token_unmarked "''''"
      "token_extractor sample_token_unmarked" net_down sample_extern sample_order "[]" ?b ?st "[]"
      JNil False None ?b "[]" None "[]"]
  have rb: "fst (buildSessionFromClaims net_down sample_extern sample_order sample_provider
          (Some sample_token_unmarked) '''' []) = Inr (session_of ?st)"
    by simp
  have ro: "range_order (claimDsts sample_provider) sample_order"
    by (auto simp: range_order_def claimDsts_def sample_provider_def sample_order_def)
  from ra rb ro show ?thesis
    by (simp add: session_of_def getString_def getSlice_def)
qed

subsection \<open>The nonce check\<close>

text \<open>
  Claim C4. \<open>checkNonce\<close> takes the token's \<open>nonce\<close> claim through \<open>toString\<close> (the
  empty string when the token has none; a string claim is itself) and compares it
  with the session's stored nonce: it returns nil when the two are equal, and the
  error "id_token nonce claim does not match the session nonce" when they differ. It
  sends no request.
\<close>

theorem checkNonce_compares:
  assumes "Claims idToken = Inr tc"
    and "(case tc ''nonce'' of None \<Rightarrow> Inr '''' | Some v \<Rightarrow> toString X v) = Inr n"
  shows "checkNonce net X p s idToken w =
     ((if Nonce s = n then None
       else Some (errors_New ''id_token nonce claim does not match the session nonce'')), w)"
  using assms
  by (auto simp: checkNonce_def getClaimExtractor_def NewClaimExtractor_def
      getAuthorizationHeader_def GetClaimInto_def GetClaim_def getProfileClaims_def
      lookupProfile_def CheckNonce_def getString_def
      split: option.splits sum.splits)

theorem checkNonce_compares_witness:
  "checkNonce net_down sample_extern sample_provider
     \<lparr>User = ''u1'', Email = '''', Groups = [], PreferredUsername = '''', Nonce = ''abc123''\<rparr>
     sample_token [] = (None, []) \<and>
   checkNonce net_down sample_extern sample_provider
     \<lparr>User = ''u1'', Email = '''', Groups = [], PreferredUsername = '''', Nonce = ''xyz''\<rparr>
     sample_token [] =
     (Some (errors_New ''id_token nonce claim does not match the session nonce''), [])"
proof -
  have h1: "Claims sample_token = Inr (tokenClaims (token_extractor sample_token))"
    by (simp add: sample_token_def token_extractor_def)
  have h2: "(case tokenClaims (token_extractor sample_token) ''nonce'' of
               None \<Rightarrow> Inr '''' | Some v \<Rightarrow> toString sample_extern v) = Inr ''abc123''"
    by (simp add: sample_token_def token_extractor_def toString_def)
  from checkNonce_compares [OF h1 h2, of net_down sample_provider
         "\<lparr>User = ''u1'', Email = '''', Groups = [], PreferredUsername = '''',
           Nonce = ''abc123''\<rparr>" "[]"]
       checkNonce_compares [OF h1 h2, of net_down sample_provider
         "\<lparr>User = ''u1'', Email = '''', Groups = [], PreferredUsername = '''',
           Nonce = ''xyz''\<rparr>" "[]"]
  show ?thesis by simp
qed

end
